theory Spec2Isabelle
  imports Complex_Main
begin

section \<open>Numbers, errors and configuration\<close>

text \<open>
  JavaScript numbers are modelled as exact rationals: the thresholds and sums of the
  program are computed without the rounding of IEEE doubles. Timestamps are integers,
  the milliseconds that \<^verbatim>\<open>Date.getTime()\<close> returns.
\<close>

type_synonym number = rat

text \<open>\<^verbatim>\<open>Math.round\<close>: the nearest integer, a tie going up.\<close>

definition Math_round :: "number \<Rightarrow> int" where
  "Math_round x = \<lfloor>x + 1 / 2\<rfloor>"

text \<open>Every \<^verbatim>\<open>throw new Error(...)\<close> of the modelled classes.\<close>

datatype error =
    StrategyNotInitialized
  | RiskManagerNotInitialized
  | MemoryNotInitialized
  | PortfolioNotInitialized
  | CannotExecuteHold
  | ProviderFailure

text \<open>
  The fields of \<^verbatim>\<open>TradingConfig\<close> that the modelled code reads through the getters of
  \<^verbatim>\<open>ConfigManager\<close> (each getter returns its field unchanged).
\<close>

record TradingConfig =
  maxPositionSize :: number
  maxDailyLoss :: number
  maxDrawdown :: number
  stopLossPercentage :: number
  takeProfitPercentage :: number
  maxOpenPositions :: number
  memoryRetentionDays :: int

section \<open>Array.prototype.sort\<close>

text \<open>
  \<^verbatim>\<open>xs.sort(cmp)\<close> is modelled as a stable insertion sort: an element is placed before
  the first element of the sorted prefix that the comparator orders after it
  (\<^verbatim>\<open>cmp(x, y) < 0\<close>). For a consistent comparator this is the order ECMAScript
  prescribes (the sort is stable).
\<close>

fun js_insert :: "('a \<Rightarrow> 'a \<Rightarrow> number) \<Rightarrow> 'a \<Rightarrow> 'a list \<Rightarrow> 'a list" where
  "js_insert cmp x [] = [x]"
| "js_insert cmp x (y # ys) = (if cmp x y < 0 then x # y # ys else y # js_insert cmp x ys)"

definition js_sort :: "('a \<Rightarrow> 'a \<Rightarrow> number) \<Rightarrow> 'a list \<Rightarrow> 'a list" where
  "js_sort cmp xs = foldl (\<lambda>acc x. js_insert cmp x acc) [] xs"

section \<open>TradingStrategy: classifications and signals\<close>

datatype trend = Bullish | Bearish | Neutral

datatype risk_level = Low | Medium | High

datatype action = Buy | Sell | Hold

record MarketAnalysis =
  symbol :: string
  trend :: trend
  strength :: number
  confidence :: number
  signals :: "string list"
  riskLevel :: risk_level

record TradingSignal =
  sig_symbol :: string
  action :: action
  quantity :: number
  price :: number
  strategy :: string
  sig_confidence :: number
  stopLoss :: "number option"
  takeProfit :: "number option"
  sig_timestamp :: int

record RiskAssessment =
  isAcceptable :: bool
  ra_riskLevel :: risk_level
  riskScore :: int
  warnings :: "string list"
  ra_maxPositionSize :: number

text \<open>\<^verbatim>\<open>s.includes(t)\<close> on strings: \<open>t\<close> occurs in \<open>s\<close> as a contiguous substring.\<close>

fun is_prefix :: "string \<Rightarrow> string \<Rightarrow> bool" where
  "is_prefix [] s = True"
| "is_prefix (c # t) [] = False"
| "is_prefix (c # t) (d # s) = (c = d \<and> is_prefix t s)"

fun str_includes :: "string \<Rightarrow> string \<Rightarrow> bool" where
  "str_includes [] t = (t = [])"
| "str_includes (c # s) t = (is_prefix t (c # s) \<or> str_includes s t)"

text \<open>
  \<^verbatim>\<open>generateSignalForSymbol\<close>: \<open>None\<close> is the source's \<^verbatim>\<open>null\<close>; \<open>now\<close> is the
  reading of \<^verbatim>\<open>new Date()\<close>. The local variable \<^verbatim>\<open>confidence\<close> is raised by 0.1
  when an action is selected, before the quantity is computed from it; the cap at 0.95
  is applied to the \<^verbatim>\<open>confidence\<close> field of the signal only.
\<close>

definition generateSignalForSymbol ::
  "TradingConfig \<Rightarrow> int \<Rightarrow> MarketAnalysis \<Rightarrow> RiskAssessment \<Rightarrow> TradingSignal option" where
  "generateSignalForSymbol cfg now analysis riskAssessment =
    (if riskLevel analysis = High \<and> ra_riskLevel riskAssessment = High then None
     else if confidence analysis < 4 / 10 then None
     else
       let (act, conf) =
         (if trend analysis = Bullish \<and> (\<exists>s \<in> set (signals analysis). str_includes s ''bullish'')
            then (Buy, confidence analysis + 1 / 10)
          else if trend analysis = Bearish \<and> (\<exists>s \<in> set (signals analysis). str_includes s ''bearish'')
            then (Sell, confidence analysis + 1 / 10)
          else (Hold, confidence analysis))
       in if act = Hold then None
          else
            let baseQuantity = maxPositionSize cfg * (1 / 10);
                qty = Math_round (baseQuantity * conf);
                stopLossPct = stopLossPercentage cfg;
                takeProfitPct = takeProfitPercentage cfg
            in Some \<lparr> sig_symbol = symbol analysis,
                      action = act,
                      quantity = of_int qty,
                      price = 0,
                      strategy = ''recall_enhanced'',
                      sig_confidence = min (95 / 100) conf,
                      stopLoss = Some (if act = Buy then - stopLossPct else stopLossPct),
                      takeProfit = Some (if act = Buy then takeProfitPct else - takeProfitPct),
                      sig_timestamp = now \<rparr>)"

text \<open>
  The loop of \<^verbatim>\<open>generateSignals\<close>: one call per classification, the signals that are
  neither \<^verbatim>\<open>null\<close> nor \<^verbatim>\<open>hold\<close> collected in order. \<open>nows\<close> are the clock
  readings of the successive calls (a missing reading is taken as 0).
\<close>

fun collectSignals ::
  "TradingConfig \<Rightarrow> int list \<Rightarrow> MarketAnalysis list \<Rightarrow> RiskAssessment \<Rightarrow> TradingSignal list" where
  "collectSignals cfg nows [] ra = []"
| "collectSignals cfg nows (a # as) ra =
     (let now = (case nows of [] \<Rightarrow> 0 | t # _ \<Rightarrow> t);
          rest = collectSignals cfg (tl nows) as ra
      in case generateSignalForSymbol cfg now a ra of
           None \<Rightarrow> rest
         | Some s \<Rightarrow> (if action s \<noteq> Hold then s # rest else rest))"

text \<open>
  \<^verbatim>\<open>generateSignals\<close>: throws when the strategy is not initialized; otherwise the
  collected signals sorted by descending confidence.
\<close>

definition generateSignals ::
  "bool \<Rightarrow> TradingConfig \<Rightarrow> int list \<Rightarrow> MarketAnalysis list \<Rightarrow> RiskAssessment
     \<Rightarrow> error + TradingSignal list" where
  "generateSignals isInitialized cfg nows analysis riskAssessment =
    (if \<not> isInitialized then Inl StrategyNotInitialized
     else Inr (js_sort (\<lambda>a b. sig_confidence b - sig_confidence a)
                 (collectSignals cfg nows analysis riskAssessment)))"

section \<open>RiskManager\<close>

text \<open>
  The portfolio argument of \<^verbatim>\<open>assessRisk\<close> is typed \<^verbatim>\<open>any\<close>: the argument itself
  and each of the two fields read may be absent (\<open>None\<close>).
\<close>

record PortfolioArg =
  initialValue :: "number option"
  currentValue :: "number option"

record RiskManager =
  rm_isInitialized :: bool
  dailyLoss :: number
  openPositions :: number

text \<open>\<^verbatim>\<open>!v\<close> for an optional number: absent or zero.\<close>

definition falsy :: "number option \<Rightarrow> bool" where
  "falsy v = (case v of None \<Rightarrow> True | Some x \<Rightarrow> x = 0)"

definition calculateDrawdown :: "PortfolioArg option \<Rightarrow> number" where
  "calculateDrawdown portfolio =
    (case portfolio of
       None \<Rightarrow> 0
     | Some p \<Rightarrow>
         if falsy (initialValue p) \<or> falsy (currentValue p) then 0
         else max 0 ((the (initialValue p) - the (currentValue p)) / the (initialValue p)))"

definition calculateMaxPositionSize :: "TradingConfig \<Rightarrow> int \<Rightarrow> number" where
  "calculateMaxPositionSize cfg score =
    (let baseSize = maxPositionSize cfg
     in if score \<ge> 70 then baseSize * (1 / 10)
        else if score \<ge> 50 then baseSize * (3 / 10)
        else if score \<ge> 30 then baseSize * (6 / 10)
        else baseSize)"

text \<open>
  \<^verbatim>\<open>assessRisk\<close>: the score and the warnings are accumulated check by check, as the
  source's \<^verbatim>\<open>riskScore += ...\<close> and \<^verbatim>\<open>warnings.push(...)\<close> do.
\<close>

definition addRisk :: "bool \<Rightarrow> int \<Rightarrow> string \<Rightarrow> int \<times> string list \<Rightarrow> int \<times> string list" where
  "addRisk c pts w acc = (if c then (fst acc + pts, snd acc @ [w]) else acc)"

definition assessRisk ::
  "TradingConfig \<Rightarrow> RiskManager \<Rightarrow> MarketAnalysis list \<Rightarrow> PortfolioArg option
     \<Rightarrow> error + RiskAssessment" where
  "assessRisk cfg rm analysis portfolio =
    (if \<not> rm_isInitialized rm then Inl RiskManagerNotInitialized
     else
       let acc0 = (0, []);
           acc1 = addRisk (dailyLoss rm \<ge> maxDailyLoss cfg) 50 ''Daily loss limit reached'' acc0;
           currentDrawdown = calculateDrawdown portfolio;
           acc2 = addRisk (currentDrawdown > maxDrawdown cfg) 40 ''Maximum drawdown exceeded'' acc1;
           acc3 = addRisk (openPositions rm \<ge> maxOpenPositions cfg) 30
                    ''Maximum open positions reached'' acc2;
           acc4 = addRisk (\<exists>a \<in> set analysis. riskLevel a = High) 20
                    ''High market volatility detected'' acc3;
           score = fst acc4;
           level = (if score \<ge> 70 then High else if score \<ge> 30 then Medium else Low)
       in Inr \<lparr> isAcceptable = score < 70,
                ra_riskLevel = level,
                riskScore = score,
                warnings = snd acc4,
                ra_maxPositionSize = calculateMaxPositionSize cfg score \<rparr>)"

section \<open>RecallMemory: the record store\<close>

text \<open>
  Payloads are typed \<^verbatim>\<open>any\<close>. A payload is modelled as an object, the list of its own
  properties in insertion order; a property value is a primitive or the reference of a
  compound value (array, object, date), of which only the identity is kept. Strict
  equality \<^verbatim>\<open>===\<close> is then equality of \<open>jsval\<close>.
\<close>

datatype jsval = JUndefined | JNull | JBool bool | JNum number | JStr string | JRef nat

type_synonym jsobject = "(string \<times> jsval) list"

text \<open>\<^verbatim>\<open>obj.key\<close> and \<^verbatim>\<open>obj[key]\<close>: a missing property reads as \<^verbatim>\<open>undefined\<close>.\<close>

definition js_get :: "jsobject \<Rightarrow> string \<Rightarrow> jsval" where
  "js_get obj k = (case map_of obj k of None \<Rightarrow> JUndefined | Some v \<Rightarrow> v)"

definition Object_keys :: "jsobject \<Rightarrow> string list" where
  "Object_keys obj = map fst obj"

record MemoryRecord =
  rec_id :: string
  timestamp :: int
  rec_type :: string
  data :: jsobject
  tags :: "jsval list"
  importance :: number
  accessCount :: int
  lastAccessed :: int

text \<open>
  A JavaScript \<^verbatim>\<open>Map\<close> is kept as the list of its entries in insertion order and a
  \<^verbatim>\<open>Set\<close> as the list of its elements in insertion order. \<^verbatim>\<open>Map.set\<close> on a present
  key replaces the value in place; on a new key it appends.
\<close>

fun Map_set :: "'k \<Rightarrow> 'v \<Rightarrow> ('k \<times> 'v) list \<Rightarrow> ('k \<times> 'v) list" where
  "Map_set k v [] = [(k, v)]"
| "Map_set k v ((k', v') # m) = (if k' = k then (k, v) # m else (k', v') # Map_set k v m)"

definition Map_delete :: "'k \<Rightarrow> ('k \<times> 'v) list \<Rightarrow> ('k \<times> 'v) list" where
  "Map_delete k m = filter (\<lambda>e. fst e \<noteq> k) m"

definition Set_add :: "'a \<Rightarrow> 'a list \<Rightarrow> 'a list" where
  "Set_add x s = (if x \<in> set s then s else s @ [x])"

record RecallMemory =
  memory :: "(string \<times> MemoryRecord) list"
  index :: "(jsval \<times> string list) list"
  mem_isInitialized :: bool

record RecallQuery =
  q_type :: "string option"
  q_tags :: "string list option"
  q_timeRange :: "(int \<times> int) option"
  q_importance :: "number option"
  q_limit :: "nat option"

text \<open>
  The body of the loop \<^verbatim>\<open>for (const tag of record.tags)\<close> shared by
  \<^verbatim>\<open>storeRecord\<close> and \<^verbatim>\<open>rebuildIndexes\<close>.
\<close>

definition index_add :: "string \<Rightarrow> (jsval \<times> string list) list \<Rightarrow> jsval \<Rightarrow> (jsval \<times> string list) list" where
  "index_add rid idx tag =
     (let idx' = (if map_of idx tag = None then Map_set tag [] idx else idx)
      in Map_set tag (Set_add rid (case map_of idx' tag of None \<Rightarrow> [] | Some s \<Rightarrow> s)) idx')"

text \<open>
  \<^verbatim>\<open>storeRecord\<close>. The snapshot written to disk when the size is a multiple of 100
  leaves the store unchanged whether it succeeds or fails, and is not modelled.
\<close>

definition storeRecord :: "MemoryRecord \<Rightarrow> RecallMemory \<Rightarrow> RecallMemory" where
  "storeRecord r st =
     st\<lparr> memory := Map_set (rec_id r) r (memory st),
         index := foldl (index_add (rec_id r)) (index st) (tags r) \<rparr>"

definition rebuildIndexes :: "RecallMemory \<Rightarrow> RecallMemory" where
  "rebuildIndexes st =
     st\<lparr> index := foldl (\<lambda>idx e. foldl (index_add (fst e)) idx (tags (snd e))) [] (memory st) \<rparr>"

text \<open>Decimal digits of a number, as a template literal prints \<^verbatim>\<open>Date.now()\<close>.\<close>

definition digit_char :: "int \<Rightarrow> char" where
  "digit_char d =
     (if d = 0 then CHR ''0'' else if d = 1 then CHR ''1'' else if d = 2 then CHR ''2''
      else if d = 3 then CHR ''3'' else if d = 4 then CHR ''4'' else if d = 5 then CHR ''5''
      else if d = 6 then CHR ''6'' else if d = 7 then CHR ''7'' else if d = 8 then CHR ''8''
      else CHR ''9'')"

function show_digits :: "int \<Rightarrow> string" where
  "show_digits n =
     (if n < 10 then [digit_char n] else show_digits (n div 10) @ [digit_char (n mod 10)])"
  by pat_completeness auto
termination
  by (relation "measure nat") auto

declare show_digits.simps [simp del]

definition show_int :: "int \<Rightarrow> string" where
  "show_int i = (if i < 0 then CHR ''-'' # show_digits (- i) else show_digits i)"

text \<open>
  \<^verbatim>\<open>generateId\<close>: \<open>now\<close> is the reading of \<^verbatim>\<open>Date.now()\<close> and \<open>rnd\<close> the string
  \<^verbatim>\<open>Math.random().toString(36)\<close>, of which \<^verbatim>\<open>substr(2, 9)\<close> keeps at most nine
  characters after the leading \<^verbatim>\<open>0.\<close>.
\<close>

definition generateId :: "int \<Rightarrow> string \<Rightarrow> string" where
  "generateId now rnd = show_int now @ ''-'' @ take 9 (drop 2 rnd)"

text \<open>
  The four recorders. One clock reading \<open>now\<close> stands for the readings of one call
  (\<^verbatim>\<open>Date.now()\<close> in the id, \<^verbatim>\<open>new Date()\<close> for the two timestamps). Each returns the
  id and the new store.
\<close>

definition newRecord :: "int \<Rightarrow> string \<Rightarrow> string \<Rightarrow> jsobject \<Rightarrow> jsval list \<Rightarrow> number \<Rightarrow> MemoryRecord" where
  "newRecord now rnd ty d tgs imp =
     \<lparr> rec_id = generateId now rnd, timestamp = now, rec_type = ty, data = d, tags = tgs,
       importance = imp, accessCount = 0, lastAccessed = now \<rparr>"


definition recordTrade :: "int \<Rightarrow> string \<Rightarrow> jsobject \<Rightarrow> RecallMemory \<Rightarrow> string \<times> RecallMemory" where
  "recordTrade now rnd tradeData st =
     (let r = newRecord now rnd ''trade'' tradeData
                [JStr ''trade_execution'', js_get tradeData ''symbol'', js_get tradeData ''action'']
                (9 / 10)
      in (rec_id r, storeRecord r st))"






text \<open>The four filters of \<^verbatim>\<open>recall\<close>, on the candidate ids in \<^verbatim>\<open>Map\<close> order.\<close>

definition filterBy :: "(MemoryRecord \<Rightarrow> bool) \<Rightarrow> (string \<times> MemoryRecord) list \<Rightarrow> string list \<Rightarrow> string list" where
  "filterBy P mem candidates =
     filter (\<lambda>i. case map_of mem i of None \<Rightarrow> False | Some r \<Rightarrow> P r) candidates"

definition filterByType :: "(string \<times> MemoryRecord) list \<Rightarrow> string list \<Rightarrow> string \<Rightarrow> string list" where
  "filterByType mem candidates ty = filterBy (\<lambda>r. rec_type r = ty) mem candidates"

definition filterByTags :: "(string \<times> MemoryRecord) list \<Rightarrow> string list \<Rightarrow> string list \<Rightarrow> string list" where
  "filterByTags mem candidates tgs =
     filterBy (\<lambda>r. \<exists>t \<in> set tgs. JStr t \<in> set (tags r)) mem candidates"

definition filterByTimeRange :: "(string \<times> MemoryRecord) list \<Rightarrow> string list \<Rightarrow> int \<times> int \<Rightarrow> string list" where
  "filterByTimeRange mem candidates timeRange =
     filterBy (\<lambda>r. timestamp r \<ge> fst timeRange \<and> timestamp r \<le> snd timeRange) mem candidates"

definition filterByImportance :: "(string \<times> MemoryRecord) list \<Rightarrow> string list \<Rightarrow> number \<Rightarrow> string list" where
  "filterByImportance mem candidates minImportance =
     filterBy (\<lambda>r. importance r \<ge> minImportance) mem candidates"

text \<open>The comparator of \<^verbatim>\<open>sortByRelevance\<close>.\<close>

definition relevance_cmp :: "MemoryRecord \<Rightarrow> MemoryRecord \<Rightarrow> number" where
  "relevance_cmp a b =
     (if \<bar>importance a - importance b\<bar> > 1 / 10 then importance b - importance a
      else let timeDiff = timestamp b - timestamp a
           in if \<bar>timeDiff\<bar> > 60000 then of_int timeDiff
              else of_int (accessCount b - accessCount a))"

definition sortByRelevance :: "MemoryRecord list \<Rightarrow> MemoryRecord list" where
  "sortByRelevance records = js_sort relevance_cmp records"

text \<open>
  \<^verbatim>\<open>recall\<close>. The records are objects shared with the \<^verbatim>\<open>Map\<close>: the access statistics
  written on the returned records are written in the store as well (by id, the key under
  which \<^verbatim>\<open>storeRecord\<close> keeps a record). \<^verbatim>\<open>query.type\<close> filters only when truthy (a
  non-empty string), \<^verbatim>\<open>query.limit || 100\<close> takes 100 for a missing or zero limit.
\<close>

definition touch :: "int \<Rightarrow> MemoryRecord \<Rightarrow> MemoryRecord" where
  "touch now r = r\<lparr> accessCount := accessCount r + 1, lastAccessed := now \<rparr>"

definition recall :: "int \<Rightarrow> RecallQuery \<Rightarrow> RecallMemory \<Rightarrow> error + (MemoryRecord list \<times> RecallMemory)" where
  "recall now query st =
    (if \<not> mem_isInitialized st then Inl MemoryNotInitialized
     else
       let mem = memory st;
           c0 = map fst mem;
           c1 = (case q_type query of
                   Some ty \<Rightarrow> if ty \<noteq> [] then filterByType mem c0 ty else c0
                 | None \<Rightarrow> c0);
           c2 = (case q_tags query of
                   Some tgs \<Rightarrow> if length tgs > 0 then filterByTags mem c1 tgs else c1
                 | None \<Rightarrow> c1);
           c3 = (case q_timeRange query of
                   Some timeRange \<Rightarrow> filterByTimeRange mem c2 timeRange
                 | None \<Rightarrow> c2);
           c4 = (case q_importance query of
                   Some imp \<Rightarrow> filterByImportance mem c3 imp
                 | None \<Rightarrow> c3);
           records = List.map_filter (map_of mem) c4;
           sortedRecords = sortByRelevance records;
           limit = (case q_limit query of None \<Rightarrow> 100 | Some n \<Rightarrow> if n = 0 then 100 else n);
           result = take limit sortedRecords;
           hit = set (map rec_id result)
       in Inr (map (touch now) result,
               st\<lparr> memory := map (\<lambda>e. if fst e \<in> hit then (fst e, touch now (snd e)) else e) mem \<rparr>))"

text \<open>\<^verbatim>\<open>calculateSimilarity\<close> of two payloads.\<close>

definition field_similarity :: "jsval \<Rightarrow> jsval \<Rightarrow> number" where
  "field_similarity v1 v2 =
     (if v1 = v2 then 1
      else case (v1, v2) of
             (JNum x, JNum y) \<Rightarrow>
               (let diff = \<bar>x - y\<bar>; mx = max \<bar>x\<bar> \<bar>y\<bar>
                in if mx > 0 then 1 - diff / mx else 0)
           | _ \<Rightarrow> 0)"

definition calculateSimilarity :: "jsobject \<Rightarrow> jsobject \<Rightarrow> number" where
  "calculateSimilarity data1 data2 =
     (let keys1 = Object_keys data1;
          keys2 = Object_keys data2;
          commonKeys = filter (\<lambda>k. k \<in> set keys2) keys1
      in if length commonKeys = 0 then 0
         else (\<Sum>k \<leftarrow> commonKeys. field_similarity (js_get data1 k) (js_get data2 k))
                / of_nat (length commonKeys))"

text \<open>
  \<^verbatim>\<open>recallSimilar\<close>: the parameter \<^verbatim>\<open>limit\<close> defaults to 10 when omitted; it is a
  count (a non-negative integer).
\<close>

definition recallSimilar ::
  "int \<Rightarrow> jsobject \<Rightarrow> string \<Rightarrow> nat option \<Rightarrow> RecallMemory \<Rightarrow> error + (MemoryRecord list \<times> RecallMemory)" where
  "recallSimilar now sampleData ty limit st =
    (case recall now \<lparr> q_type = Some ty, q_tags = None, q_timeRange = None,
                      q_importance = None, q_limit = Some 100 \<rparr> st of
       Inl e \<Rightarrow> Inl e
     | Inr (records, st') \<Rightarrow>
         let scoredRecords = map (\<lambda>r. (r, calculateSimilarity sampleData (data r))) records;
             sorted = js_sort (\<lambda>a b. snd b - snd a) scoredRecords;
             n = (case limit of None \<Rightarrow> 10 | Some l \<Rightarrow> l)
         in Inr (map fst (take n sorted), st'))"

text \<open>
  \<^verbatim>\<open>cleanup\<close>. The cutoff is the clock reading moved back by the retention days
  (\<^verbatim>\<open>setDate(getDate() - retentionDays)\<close>), a day taken as 86400000 ms.
\<close>

definition cutoffDate :: "int \<Rightarrow> int \<Rightarrow> int" where
  "cutoffDate now retentionDays = now - retentionDays * 86400000"

definition cleanup :: "TradingConfig \<Rightarrow> int \<Rightarrow> RecallMemory \<Rightarrow> RecallMemory" where
  "cleanup cfg now st =
     (let cutoff = cutoffDate now (memoryRetentionDays cfg);
          toDelete = map fst (filter (\<lambda>e. timestamp (snd e) < cutoff \<and> importance (snd e) < 1 / 2)
                                (memory st));
          mem' = foldl (\<lambda>m i. Map_delete i m) (memory st) toDelete
      in rebuildIndexes (st\<lparr> memory := mem' \<rparr>))"

section \<open>TradingStrategy: market analysis\<close>

record MarketData =
  md_symbol :: string
  md_price :: number
  md_volume :: number
  md_timestamp :: int
  rsi :: "number option"
  macd :: "number option"
  movingAverage :: "number option"
  volatility :: "number option"












section \<open>RiskManager: validation of one signal\<close>



section \<open>PumpPandaAgent: one trading cycle\<close>









section \<open>PumpPandaAgent: the interval timers\<close>

text \<open>
  The event loop keeps the active intervals; \<^verbatim>\<open>setInterval\<close> registers a callback
  under a fresh handle and \<^verbatim>\<open>clearInterval\<close> removes the interval of a handle. The
  agent keeps handles in its two fields \<^verbatim>\<open>tradingInterval\<close> and
  \<^verbatim>\<open>performanceInterval\<close>.
\<close>

datatype callback = TradingLoop | MemeTokenScan | PerformanceMonitoring

record Timer =
  handle :: nat
  callback :: callback
  period :: number

record AgentConfig =
  tradingIntervalMs :: number
  memeHuntingEnabled :: bool
  scanInterval :: number
  performanceMonitoringInterval :: number

record AgentTimers =
  isRunning :: bool
  tradingInterval :: "nat option"
  performanceInterval :: "nat option"
  timers :: "Timer list"
  nextHandle :: nat

definition setInterval :: "callback \<Rightarrow> number \<Rightarrow> AgentTimers \<Rightarrow> nat \<times> AgentTimers" where
  "setInterval cb ms st =
     (nextHandle st,
      st\<lparr> timers := timers st @ [\<lparr> handle = nextHandle st, callback = cb, period = ms \<rparr>],
          nextHandle := nextHandle st + 1 \<rparr>)"

definition clearInterval :: "nat \<Rightarrow> AgentTimers \<Rightarrow> AgentTimers" where
  "clearInterval h st = st\<lparr> timers := filter (\<lambda>t. handle t \<noteq> h) (timers st) \<rparr>"

definition startTradingLoop :: "AgentConfig \<Rightarrow> AgentTimers \<Rightarrow> AgentTimers" where
  "startTradingLoop cfg st =
     (let (h, st') = setInterval TradingLoop (tradingIntervalMs cfg) st
      in st'\<lparr> tradingInterval := Some h \<rparr>)"

text \<open>\<^verbatim>\<open>startMemeTokenHunting\<close> stores its handle in \<^verbatim>\<open>this.tradingInterval\<close>, as the source does.\<close>

definition startMemeTokenHunting :: "AgentConfig \<Rightarrow> AgentTimers \<Rightarrow> AgentTimers" where
  "startMemeTokenHunting cfg st =
     (if \<not> memeHuntingEnabled cfg then st
      else let (h, st') = setInterval MemeTokenScan (scanInterval cfg) st
           in st'\<lparr> tradingInterval := Some h \<rparr>)"

definition startPerformanceMonitoring :: "AgentConfig \<Rightarrow> AgentTimers \<Rightarrow> AgentTimers" where
  "startPerformanceMonitoring cfg st =
     (let (h, st') = setInterval PerformanceMonitoring (performanceMonitoringInterval cfg) st
      in st'\<lparr> performanceInterval := Some h \<rparr>)"

text \<open>
  \<^verbatim>\<open>start\<close>; \<open>streamingOk\<close> tells whether \<^verbatim>\<open>marketData.startStreaming()\<close> returns
  (otherwise \<^verbatim>\<open>start\<close> resets the flag and rethrows).
\<close>

definition start :: "bool \<Rightarrow> AgentConfig \<Rightarrow> AgentTimers \<Rightarrow> AgentTimers" where
  "start streamingOk cfg st =
     (if isRunning st then st
      else if \<not> streamingOk then st\<lparr> isRunning := False \<rparr>
      else startPerformanceMonitoring cfg
             (startMemeTokenHunting cfg (startTradingLoop cfg (st\<lparr> isRunning := True \<rparr>))))"

definition pause :: "AgentTimers \<Rightarrow> AgentTimers" where
  "pause st = st\<lparr> isRunning := False \<rparr>"

definition resume :: "AgentConfig \<Rightarrow> AgentTimers \<Rightarrow> AgentTimers" where
  "resume cfg st =
     (if \<not> isRunning st
      then startMemeTokenHunting cfg (startTradingLoop cfg (st\<lparr> isRunning := True \<rparr>))
      else st)"

text \<open>The part of \<^verbatim>\<open>shutdown\<close> that concerns the timers.\<close>

definition shutdown :: "AgentTimers \<Rightarrow> AgentTimers" where
  "shutdown st =
     (let s1 = st\<lparr> isRunning := False \<rparr>;
          s2 = (case tradingInterval s1 of
                  None \<Rightarrow> s1
                | Some h \<Rightarrow> (clearInterval h s1)\<lparr> tradingInterval := None \<rparr>)
      in case performanceInterval s2 of
           None \<Rightarrow> s2
         | Some h \<Rightarrow> (clearInterval h s2)\<lparr> performanceInterval := None \<rparr>)"

text \<open>
  One expiry of the interval with handle \<open>h\<close>: the work the callback starts, and the
  timers afterwards. A cleared interval does not fire. The callbacks of the trading loop
  and of the meme-token scan both cancel through \<^verbatim>\<open>this.tradingInterval\<close> when the agent
  is not running.
\<close>

datatype work = RunTradingCycle | RunMemeTokenScan | RunPerformanceReport | NoWork

definition cancelThroughTradingInterval :: "AgentTimers \<Rightarrow> AgentTimers" where
  "cancelThroughTradingInterval st =
     (case tradingInterval st of
        None \<Rightarrow> st
      | Some h \<Rightarrow> (clearInterval h st)\<lparr> tradingInterval := None \<rparr>)"

definition runCallback :: "callback \<Rightarrow> AgentTimers \<Rightarrow> work \<times> AgentTimers" where
  "runCallback cb st =
     (case cb of
        TradingLoop \<Rightarrow>
          if \<not> isRunning st then (NoWork, cancelThroughTradingInterval st)
          else (RunTradingCycle, st)
      | MemeTokenScan \<Rightarrow>
          if \<not> isRunning st then (NoWork, cancelThroughTradingInterval st)
          else (RunMemeTokenScan, st)
      | PerformanceMonitoring \<Rightarrow>
          if \<not> isRunning st then (NoWork, st)
          else (RunPerformanceReport, st))"

definition fire :: "nat \<Rightarrow> AgentTimers \<Rightarrow> work \<times> AgentTimers" where
  "fire h st =
     (case find (\<lambda>t. handle t = h) (timers st) of
        None \<Rightarrow> (NoWork, st)
      | Some t \<Rightarrow> runCallback (callback t) st)"

section \<open>Notions used in the statements\<close>

text \<open>The record a cleanup at clock reading \<open>now\<close> deletes: older than the cutoff and of importance below 0.5.\<close>

definition expired :: "TradingConfig \<Rightarrow> int \<Rightarrow> string \<times> MemoryRecord \<Rightarrow> bool" where
  "expired cfg now e =
     (timestamp (snd e) < cutoffDate now (memoryRetentionDays cfg) \<and> importance (snd e) < 1 / 2)"



text \<open>The list and the store that \<^verbatim>\<open>recall\<close> and \<^verbatim>\<open>recallSimilar\<close> return (nothing when they throw).\<close>

definition recall_result :: "int \<Rightarrow> RecallQuery \<Rightarrow> RecallMemory \<Rightarrow> MemoryRecord list" where
  "recall_result now q st = (case recall now q st of Inl e \<Rightarrow> [] | Inr (records, st') \<Rightarrow> records)"


definition similar_result :: "int \<Rightarrow> jsobject \<Rightarrow> string \<Rightarrow> nat option \<Rightarrow> RecallMemory \<Rightarrow> MemoryRecord list" where
  "similar_result now sampleData ty limit st =
     (case recallSimilar now sampleData ty limit st of Inl e \<Rightarrow> [] | Inr (records, st') \<Rightarrow> records)"

text \<open>The candidates of \<^verbatim>\<open>recallSimilar\<close>: what its query \<^verbatim>\<open>{ type, limit: 100 }\<close> returns.\<close>

definition candidates :: "int \<Rightarrow> string \<Rightarrow> RecallMemory \<Rightarrow> MemoryRecord list" where
  "candidates now ty st =
     recall_result now \<lparr> q_type = Some ty, q_tags = None, q_timeRange = None,
                         q_importance = None, q_limit = Some 100 \<rparr> st"

text \<open>The active intervals of the event loop: handle, callback and period.\<close>

definition active :: "AgentTimers \<Rightarrow> (nat \<times> callback \<times> number) list" where
  "active st = map (\<lambda>t. (handle t, callback t, period t)) (timers st)"


section \<open>Example values\<close>

text \<open>The trading parameters of the default configuration, with a maximum position of 1000.\<close>

definition cfg_example :: TradingConfig where
  "cfg_example = \<lparr> maxPositionSize = 1000, maxDailyLoss = 100, maxDrawdown = 5 / 100,
       stopLossPercentage = 2 / 100, takeProfitPercentage = 4 / 100, maxOpenPositions = 5,
       memoryRetentionDays = 30 \<rparr>"

definition bullish_analysis :: "number \<Rightarrow> MarketAnalysis" where
  "bullish_analysis c = \<lparr> symbol = ''PEPE'', trend = Bullish, strength = 1 / 2, confidence = c,
      signals = [''macd_bullish''], riskLevel = Low \<rparr>"

definition ra_low :: RiskAssessment where
  "ra_low = \<lparr> isAcceptable = True, ra_riskLevel = Low, riskScore = 0, warnings = [],
      ra_maxPositionSize = 1000 \<rparr>"

definition ra_low_other :: RiskAssessment where
  "ra_low_other = \<lparr> isAcceptable = False, ra_riskLevel = Low, riskScore = 55,
      warnings = [''Daily loss limit reached''], ra_maxPositionSize = 1 \<rparr>"

definition rm_example :: "number \<Rightarrow> RiskManager" where
  "rm_example loss = \<lparr> rm_isInitialized = True, dailyLoss = loss, openPositions = 0 \<rparr>"

definition portfolio_example :: "number \<Rightarrow> number \<Rightarrow> PortfolioArg option" where
  "portfolio_example iv cv = Some \<lparr> initialValue = Some iv, currentValue = Some cv \<rparr>"

text \<open>An initialized store without records, and the query without any filter.\<close>

definition empty_store :: RecallMemory where
  "empty_store = \<lparr> memory = [], index = [], mem_isInitialized = True \<rparr>"


text \<open>The record at a position of the store.\<close>

definition stored :: "nat \<Rightarrow> RecallMemory \<Rightarrow> MemoryRecord" where
  "stored k st = snd (memory st ! k)"


text \<open>Stores given by their records, as \<^verbatim>\<open>loadMemoryFromDisk\<close> and \<^verbatim>\<open>rebuildIndexes\<close> set them up.\<close>

definition plain_record :: "string \<Rightarrow> int \<Rightarrow> number \<Rightarrow> MemoryRecord" where
  "plain_record i t imp = \<lparr> rec_id = i, timestamp = t, rec_type = ''signal'', data = [],
      tags = [], importance = imp, accessCount = 0, lastAccessed = t \<rparr>"

definition store_of :: "MemoryRecord list \<Rightarrow> RecallMemory" where
  "store_of rs = rebuildIndexes \<lparr> memory = map (\<lambda>r. (rec_id r, r)) rs, index = [],
      mem_isInitialized = True \<rparr>"



text \<open>A store holding one trade, and a sample that has no field in common with it.\<close>

definition trade_store :: RecallMemory where
  "trade_store = snd (recordTrade 1000 ''0.abc''
      [(''symbol'', JStr ''PEPE''), (''action'', JStr ''buy''), (''price'', JNum 100)] empty_store)"

definition volume_sample :: jsobject where
  "volume_sample = [(''volume'', JNum 5)]"



text \<open>A record of importance 0.3 and one of importance 0.7, both written at time 0.\<close>

definition old_store :: RecallMemory where
  "old_store = store_of [plain_record ''x'' 0 (3 / 10), plain_record ''y'' 0 (7 / 10)]"

text \<open>
  The timer settings of the default configuration (meme-token hunting enabled) and an
  agent that has not been started.
\<close>

definition agent_cfg :: AgentConfig where
  "agent_cfg = \<lparr> tradingIntervalMs = 30000, memeHuntingEnabled = True, scanInterval = 60000,
      performanceMonitoringInterval = 300000 \<rparr>"

definition idle_timers :: AgentTimers where
  "idle_timers = \<lparr> isRunning = False, tradingInterval = None, performanceInterval = None,
      timers = [], nextHandle = 0 \<rparr>"




section \<open>Properties\<close>

subsection \<open>Evaluation helpers\<close>


lemma generateSignalForSymbol_riskLevel_only:
  "ra_riskLevel ra1 = ra_riskLevel ra2 \<Longrightarrow>
     generateSignalForSymbol cfg now a ra1 = generateSignalForSymbol cfg now a ra2"
  by (simp add: generateSignalForSymbol_def)

lemma collectSignals_riskLevel_only:
  "ra_riskLevel ra1 = ra_riskLevel ra2 \<Longrightarrow>
     collectSignals cfg nows as ra1 = collectSignals cfg nows as ra2"
  by (induction as arbitrary: nows)
     (simp_all add: generateSignalForSymbol_riskLevel_only [of ra1 ra2])

lemma fst_addRisk: "fst (addRisk c pts w acc) = fst acc + (if c then pts else 0)"
  by (simp add: addRisk_def)

lemma assessRisk_value:
  assumes "rm_isInitialized rm"
  shows "\<exists>ra. assessRisk cfg rm analysis portfolio = Inr ra
     \<and> riskScore ra =
          (if dailyLoss rm \<ge> maxDailyLoss cfg then 50 else 0)
        + (if calculateDrawdown portfolio > maxDrawdown cfg then 40 else 0)
        + (if openPositions rm \<ge> maxOpenPositions cfg then 30 else 0)
        + (if \<exists>a \<in> set analysis. riskLevel a = High then 20 else 0)
     \<and> ra_riskLevel ra
         = (if riskScore ra \<ge> 70 then High else if riskScore ra \<ge> 30 then Medium else Low)
     \<and> isAcceptable ra = (riskScore ra < 70)"
  using assms unfolding assessRisk_def Let_def
  by (simp add: fst_addRisk del: split_paired_Ex)

lemma foldl_Map_delete:
  "foldl (\<lambda>m i. Map_delete i m) m ids = filter (\<lambda>e. fst e \<notin> set ids) m"
proof (induction ids arbitrary: m)
  case Nil
  show ?case by simp
next
  case (Cons i ids)
  have "filter (\<lambda>e. fst e \<notin> set ids) (Map_delete i m) = filter (\<lambda>e. fst e \<notin> set (i # ids)) m"
    by (auto simp add: Map_delete_def intro: filter_cong)
  then show ?case using Cons.IH [of "Map_delete i m"] by simp
qed

lemma memory_cleanup:
  "memory (cleanup cfg now st)
     = filter (\<lambda>e. fst e \<notin> fst ` set (filter (expired cfg now) (memory st))) (memory st)"
  by (simp add: cleanup_def Let_def rebuildIndexes_def foldl_Map_delete expired_def [abs_def])

lemma no_expired_after_cleanup:
  "filter (expired cfg now) (memory (cleanup cfg now st)) = []"
  by (auto simp add: memory_cleanup filter_empty_conv)

lemma cleanup_no_expired:
  assumes "filter (expired cfg now) (memory st) = []"
  shows "cleanup cfg now st = rebuildIndexes st"
proof -
  have "filter (\<lambda>e. timestamp (snd e) < cutoffDate now (memoryRetentionDays cfg)
                  \<and> importance (snd e) < 1 / 2) (memory st) = []"
    using assms by (simp add: expired_def [abs_def])
  then show ?thesis by (simp add: cleanup_def Let_def)
qed

lemma rebuildIndexes_cleanup: "rebuildIndexes (cleanup cfg now st) = cleanup cfg now st"
  by (simp add: cleanup_def Let_def rebuildIndexes_def)



















lemma recall_shape:
  assumes "mem_isInitialized st"
  shows "\<exists>records n st'.
           recall now q st = Inr (map (touch now) (take n (sortByRelevance records)), st')"
  unfolding recall_def Let_def using assms
  by (intro exI) (simp only: if_False not_True_eq_False simp_thms)

lemma js_insert_tie: "\<forall>y \<in> set ys. \<not> cmp x y < 0 \<Longrightarrow> js_insert cmp x ys = ys @ [x]"
  by (induction ys) simp_all

lemma foldl_js_insert_ties:
  "\<forall>x \<in> set xs. \<forall>y \<in> set (acc @ xs). \<not> cmp x y < 0 \<Longrightarrow>
     foldl (\<lambda>acc x. js_insert cmp x acc) acc xs = acc @ xs"
proof (induction xs arbitrary: acc)
  case Nil
  show ?case by simp
next
  case (Cons x xs)
  have i: "js_insert cmp x acc = acc @ [x]"
    using Cons.prems by (simp add: js_insert_tie)
  have "\<forall>x' \<in> set xs. \<forall>y \<in> set ((acc @ [x]) @ xs). \<not> cmp x' y < 0"
    using Cons.prems by simp
  then show ?case using Cons.IH [of "acc @ [x]"] i by simp
qed

lemma js_sort_ties: "\<forall>x \<in> set xs. \<forall>y \<in> set xs. \<not> cmp x y < 0 \<Longrightarrow> js_sort cmp xs = xs"
  using foldl_js_insert_ties [of xs "[]" cmp] by (simp add: js_sort_def)

lemma calculateSimilarity_no_overlap:
  "set (Object_keys d1) \<inter> set (Object_keys d2) = {} \<Longrightarrow> calculateSimilarity d1 d2 = 0"
proof -
  assume d: "set (Object_keys d1) \<inter> set (Object_keys d2) = {}"
  have "filter (\<lambda>k. k \<in> set (Object_keys d2)) (Object_keys d1) = []"
    using d by (auto simp add: filter_empty_conv)
  then show ?thesis by (simp add: calculateSimilarity_def Let_def)
qed






subsection \<open>Position sizing\<close>




subsection \<open>Signals and the risk assessment\<close>

text \<open>
  C9. \<^verbatim>\<open>generateSignals\<close> reads the risk assessment only through its risk level: two
  assessments with the same risk level give the same batch of signals, whatever their
  \<^verbatim>\<open>maxPositionSize\<close>, score, warnings and acceptability; the quantity comes from the
  configured maximum position alone.
\<close>

theorem generateSignals_riskLevel_only:
  assumes "ra_riskLevel ra1 = ra_riskLevel ra2"
  shows "generateSignals isInit cfg nows analysis ra1 = generateSignals isInit cfg nows analysis ra2"
  using assms by (simp add: generateSignals_def collectSignals_riskLevel_only [of ra1 ra2])

theorem generateSignals_riskLevel_only_witness:
  "ra_riskLevel ra_low = ra_riskLevel ra_low_other
   \<and> ra_maxPositionSize ra_low \<noteq> ra_maxPositionSize ra_low_other
   \<and> riskScore ra_low \<noteq> riskScore ra_low_other
   \<and> warnings ra_low \<noteq> warnings ra_low_other
   \<and> isAcceptable ra_low \<noteq> isAcceptable ra_low_other
   \<and> generateSignals True cfg_example [0] [bullish_analysis (8 / 10)] ra_low
       = generateSignals True cfg_example [0] [bullish_analysis (8 / 10)] ra_low_other"
  using generateSignals_riskLevel_only
          [of ra_low ra_low_other True cfg_example "[0]" "[bullish_analysis (8 / 10)]"]
  by (simp add: ra_low_def ra_low_other_def)

subsection \<open>Risk score\<close>

text \<open>
  C2. For an initialized risk manager \<^verbatim>\<open>assessRisk\<close> returns an assessment whose score
  is the sum of the points of the four checks (50 daily loss at or over the maximum, 40
  drawdown over the maximum, 30 open positions at or over the maximum, 20 some
  classification of high risk), whose level is high from 70, medium from 30 and low
  below, and which is acceptable exactly when the score is below 70. The daily-loss
  check alone gives 50, medium, acceptable; with the drawdown check, 90, high, not
  acceptable.
\<close>

theorem assessRisk_score:
  assumes "rm_isInitialized rm"
  shows "\<exists>ra. assessRisk cfg rm analysis portfolio = Inr ra
     \<and> riskScore ra =
          (if dailyLoss rm \<ge> maxDailyLoss cfg then 50 else 0)
        + (if calculateDrawdown portfolio > maxDrawdown cfg then 40 else 0)
        + (if openPositions rm \<ge> maxOpenPositions cfg then 30 else 0)
        + (if \<exists>a \<in> set analysis. riskLevel a = High then 20 else 0)
     \<and> ra_riskLevel ra
         = (if riskScore ra \<ge> 70 then High else if riskScore ra \<ge> 30 then Medium else Low)
     \<and> isAcceptable ra = (riskScore ra < 70)
     \<and> (dailyLoss rm \<ge> maxDailyLoss cfg
          \<and> \<not> openPositions rm \<ge> maxOpenPositions cfg
          \<and> \<not> (\<exists>a \<in> set analysis. riskLevel a = High)
        \<longrightarrow> (if calculateDrawdown portfolio > maxDrawdown cfg
             then riskScore ra = 90 \<and> ra_riskLevel ra = High \<and> \<not> isAcceptable ra
             else riskScore ra = 50 \<and> ra_riskLevel ra = Medium \<and> isAcceptable ra))"
proof -
  define A where "A = (dailyLoss rm \<ge> maxDailyLoss cfg)"
  define B where "B = (calculateDrawdown portfolio > maxDrawdown cfg)"
  define C where "C = (openPositions rm \<ge> maxOpenPositions cfg)"
  define D where "D = (\<exists>a \<in> set analysis. riskLevel a = High)"
  obtain ra where r: "assessRisk cfg rm analysis portfolio = Inr ra"
    and s: "riskScore ra = (if A then 50 else 0) + (if B then 40 else 0)
              + (if C then 30 else 0) + (if D then 20 else 0)"
    and l: "ra_riskLevel ra
              = (if riskScore ra \<ge> 70 then High else if riskScore ra \<ge> 30 then Medium else Low)"
    and a: "isAcceptable ra = (riskScore ra < 70)"
    using assessRisk_value [OF assms, of cfg analysis portfolio]
    unfolding A_def B_def C_def D_def by blast
  have p: "A \<and> \<not> C \<and> \<not> D
        \<longrightarrow> (if B then riskScore ra = 90 \<and> ra_riskLevel ra = High \<and> \<not> isAcceptable ra
             else riskScore ra = 50 \<and> ra_riskLevel ra = Medium \<and> isAcceptable ra)"
    using s l a by simp
  show ?thesis
    using r s l a p unfolding A_def B_def C_def D_def by simp
qed

theorem assessRisk_score_witness:
  "(\<exists>ra. assessRisk cfg_example (rm_example 100) [] (portfolio_example 1000 1000) = Inr ra
       \<and> riskScore ra = 50 \<and> ra_riskLevel ra = Medium \<and> isAcceptable ra)
   \<and> (\<exists>ra. assessRisk cfg_example (rm_example 100) [] (portfolio_example 1000 900) = Inr ra
       \<and> riskScore ra = 90 \<and> ra_riskLevel ra = High \<and> \<not> isAcceptable ra)"
proof -
  have i: "rm_isInitialized (rm_example 100)"
    by (simp add: rm_example_def)
  have d1: "\<not> calculateDrawdown (portfolio_example 1000 1000) > maxDrawdown cfg_example"
    by (simp add: cfg_example_def portfolio_example_def calculateDrawdown_def falsy_def)
  have d2: "calculateDrawdown (portfolio_example 1000 900) > maxDrawdown cfg_example"
    by (simp add: cfg_example_def portfolio_example_def calculateDrawdown_def falsy_def)
  have c: "dailyLoss (rm_example 100) \<ge> maxDailyLoss cfg_example
          \<and> \<not> openPositions (rm_example 100) \<ge> maxOpenPositions cfg_example
          \<and> \<not> (\<exists>a \<in> set []. riskLevel a = High)"
    by (simp add: cfg_example_def rm_example_def)
  obtain ra1 where r1: "assessRisk cfg_example (rm_example 100) [] (portfolio_example 1000 1000) = Inr ra1"
    and p1: "riskScore ra1 = 50 \<and> ra_riskLevel ra1 = Medium \<and> isAcceptable ra1"
    using assessRisk_score [OF i, of cfg_example "[]" "portfolio_example 1000 1000"] d1 c
    by auto
  obtain ra2 where r2: "assessRisk cfg_example (rm_example 100) [] (portfolio_example 1000 900) = Inr ra2"
    and p2: "riskScore ra2 = 90 \<and> ra_riskLevel ra2 = High \<and> \<not> isAcceptable ra2"
    using assessRisk_score [OF i, of cfg_example "[]" "portfolio_example 1000 900"] d2 c
    by auto
  show ?thesis
    using r1 p1 r2 p2 by simp
qed

subsection \<open>Drawdown of an empty or missing portfolio value\<close>



subsection \<open>Cleanup\<close>

text \<open>
  C8. Cleanup is idempotent: at a fixed clock reading, a second cleanup leaves the store
  (records and tag index) as the first one left it; it removes no further record.
\<close>

theorem cleanup_idempotent:
  "cleanup cfg now (cleanup cfg now st) = cleanup cfg now st"
  using cleanup_no_expired [OF no_expired_after_cleanup, of cfg now st]
  by (simp add: rebuildIndexes_cleanup)

theorem cleanup_idempotent_witness:
  "map fst (memory old_store) = [''x'', ''y'']
   \<and> map fst (memory (cleanup cfg_example 8640000000 old_store)) = [''y'']
   \<and> cleanup cfg_example 8640000000 (cleanup cfg_example 8640000000 old_store)
       = cleanup cfg_example 8640000000 old_store"
proof -
  have "map fst (memory old_store) = [''x'', ''y'']"
    and "map fst (memory (cleanup cfg_example 8640000000 old_store)) = [''y'']"
    by code_simp+
  then show ?thesis
    using cleanup_idempotent [of cfg_example 8640000000 old_store] by simp
qed

subsection \<open>Ranking of recalled records\<close>




subsection \<open>Similar records without common fields\<close>

text \<open>
  C4 (as stated, refuted). The sample \<open>{volume: 5}\<close> shares no field name with the one
  stored trade, and \<^verbatim>\<open>recallSimilar\<close> returns that trade, not the empty list: a score
  of 0 does not remove a candidate.
\<close>

theorem similar_claim_counterexample:
  "filter (\<lambda>k. k \<in> set (Object_keys (data (stored 0 trade_store)))) (Object_keys volume_sample) = []
   \<and> map rec_id (similar_result 2000 volume_sample ''trade'' None trade_store) = [''1000-abc'']"
  by code_simp

text \<open>
  C4 (amended). When no candidate shares a field name with the sample, every candidate
  scores 0 and \<^verbatim>\<open>recallSimilar\<close> returns the first \<open>limit\<close> candidates (10 by default)
  in the order of the query result.
\<close>

theorem recallSimilar_no_overlap:
  assumes "mem_isInitialized st"
    and "\<forall>r \<in> set (candidates now ty st).
           set (Object_keys sample) \<inter> set (Object_keys (data r)) = {}"
  shows "\<exists>st'. recallSimilar now sample ty limit st
           = Inr (take (case limit of None \<Rightarrow> 10 | Some l \<Rightarrow> l) (candidates now ty st), st')"
proof -
  let ?q = "\<lparr> q_type = Some ty, q_tags = None, q_timeRange = None,
               q_importance = None, q_limit = Some 100 \<rparr>"
  obtain records st' where r: "recall now ?q st = Inr (records, st')"
    using recall_shape [OF assms(1), of now ?q] by blast
  have c: "candidates now ty st = records"
    using r by (simp add: candidates_def recall_result_def)
  let ?scored = "map (\<lambda>r. (r, calculateSimilarity sample (data r))) records"
  have z: "\<forall>p \<in> set ?scored. snd p = 0"
    using assms(2) c by (auto simp add: calculateSimilarity_no_overlap)
  have "js_sort (\<lambda>a b. snd b - snd a) ?scored = ?scored"
    by (rule js_sort_ties) (use z in simp)
  then have "recallSimilar now sample ty limit st
               = Inr (map fst (take (case limit of None \<Rightarrow> 10 | Some l \<Rightarrow> l) ?scored), st')"
    using r by (simp add: recallSimilar_def Let_def)
  moreover have "map fst (take (case limit of None \<Rightarrow> 10 | Some l \<Rightarrow> l) ?scored)
                   = take (case limit of None \<Rightarrow> 10 | Some l \<Rightarrow> l) records"
    by (simp add: take_map [symmetric] comp_def)
  ultimately show ?thesis using c by simp
qed

theorem recallSimilar_no_overlap_witness:
  "map (\<lambda>r. filter (\<lambda>k. k \<in> set (Object_keys (data r))) (Object_keys volume_sample))
       (candidates 2000 ''trade'' trade_store) = [[]]
   \<and> (\<exists>st'. recallSimilar 2000 volume_sample ''trade'' None trade_store
          = Inr (take 10 (candidates 2000 ''trade'' trade_store), st'))"
proof -
  have i: "mem_isInitialized trade_store"
    by code_simp
  have h: "\<forall>r \<in> set (candidates 2000 ''trade'' trade_store).
       set (Object_keys volume_sample) \<inter> set (Object_keys (data r)) = {}"
    by code_simp
  have l: "map (\<lambda>r. filter (\<lambda>k. k \<in> set (Object_keys (data r))) (Object_keys volume_sample))
       (candidates 2000 ''trade'' trade_store) = [[]]"
    by code_simp
  show ?thesis
    using recallSimilar_no_overlap [OF i h, of None] l by simp
qed

subsection \<open>Ids of inserted records\<close>




subsection \<open>A trading cycle with neutral classifications\<close>



subsection \<open>The two timers and the one handle\<close>

text \<open>
  C6 (the code departs from the claim). After \<^verbatim>\<open>start\<close> with meme-token hunting
  enabled three intervals are active, under the distinct handles 0 (trading loop), 1
  (meme-token scan) and 2 (performance monitoring), at their configured periods; but
  \<^verbatim>\<open>this.tradingInterval\<close> holds handle 1, since \<^verbatim>\<open>startMemeTokenHunting\<close> stores its
  handle in the field of the trading loop. After \<^verbatim>\<open>pause\<close>, the expiry of the trading
  loop's interval cancels through that field: it clears the meme-token scan's interval
  and leaves its own active. \<^verbatim>\<open>shutdown\<close> likewise leaves the trading loop's interval
  active.
\<close>

theorem trading_tick_clears_meme_timer:
  "active (start True agent_cfg idle_timers)
     = [(0, TradingLoop, 30000), (1, MemeTokenScan, 60000), (2, PerformanceMonitoring, 300000)]
   \<and> tradingInterval (start True agent_cfg idle_timers) = Some 1
   \<and> fst (fire 0 (pause (start True agent_cfg idle_timers))) = NoWork
   \<and> active (snd (fire 0 (pause (start True agent_cfg idle_timers))))
     = [(0, TradingLoop, 30000), (2, PerformanceMonitoring, 300000)]
   \<and> active (shutdown (start True agent_cfg idle_timers)) = [(0, TradingLoop, 30000)]"
  by code_simp

end
